theory Spec2Isabelle
  imports Complex_Main "HOL-Library.Word" "HOL-Library.Sublist"
begin

section \<open>JavaScript values used by src/index.ts\<close>

text \<open>
  A JavaScript string is a sequence of UTF-16 code units. Text that comes from the DOM,
  from the caller or from a decoder is a \<open>jstring\<close>; a literal of the source is embedded
  with \<open>js\<close>. Header names and header values are delivered by Node's HTTP parser as
  Latin-1 text, one character per byte, so they are HOL strings (\<open>string\<close>), on which
  \<open>toLowerCase\<close> and \<open>trim\<close> can be written out exactly.
\<close>

type_synonym jstring = "16 word list"

type_synonym byte = "8 word"

definition js :: "string \<Rightarrow> jstring" where
  "js s = map of_char s"

text \<open>The white space and line terminators that \<open>String.prototype.trim\<close> removes.\<close>

definition is_js_space :: "16 word \<Rightarrow> bool" where
  "is_js_space c =
     (c \<in> set [0x9, 0xA, 0xB, 0xC, 0xD, 0x20, 0xA0, 0x1680, 0x2028, 0x2029, 0x202F,
                0x205F, 0x3000, 0xFEFF]
      \<or> (0x2000 \<le> c \<and> c \<le> 0x200A))"

definition trim :: "jstring \<Rightarrow> jstring" where
  "trim s = rev (dropWhile is_js_space (rev (dropWhile is_js_space s)))"

text \<open>The same two operations on Latin-1 header text.\<close>

definition is_latin1_space :: "char \<Rightarrow> bool" where
  "is_latin1_space c = ((of_char c :: nat) \<in> set [0x9, 0xA, 0xB, 0xC, 0xD, 0x20, 0xA0])"

definition trim_latin1 :: "string \<Rightarrow> string" where
  "trim_latin1 s = rev (dropWhile is_latin1_space (rev (dropWhile is_latin1_space s)))"

definition ascii_lower :: "char \<Rightarrow> char" where
  "ascii_lower c =
     (let n = (of_char c :: nat) in if 65 \<le> n \<and> n \<le> 90 then char_of (n + 32) else c)"

definition lower_char :: "char \<Rightarrow> char" where
  "lower_char c =
     (let n = (of_char c :: nat)
      in if (65 \<le> n \<and> n \<le> 90) \<or> (192 \<le> n \<and> n \<le> 222 \<and> n \<noteq> 215)
         then char_of (n + 32) else c)"

definition toLowerCase :: "string \<Rightarrow> string" where
  "toLowerCase s = map lower_char s"

text \<open>
  A JavaScript \<open>number\<close>. The source only compares numbers, takes a minimum and
  truncates one to an integer; none of these rounds, so the finite values are
  modelled by the reals they denote (the two zeros are one value: both are falsy).
\<close>

datatype js_number = NaN | PosInfinity | NegInfinity | Finite real

fun number_truthy :: "js_number \<Rightarrow> bool" where
  "number_truthy NaN = False"
| "number_truthy (Finite x) = (x \<noteq> 0)"
| "number_truthy PosInfinity = True"
| "number_truthy NegInfinity = True"

text \<open>\<open>js_gt a b\<close> is \<open>a > b\<close> and \<open>js_ge a b\<close> is \<open>a >= b\<close>.\<close>

fun js_gt :: "js_number \<Rightarrow> js_number \<Rightarrow> bool" where
  "js_gt NaN b = False"
| "js_gt a NaN = False"
| "js_gt PosInfinity PosInfinity = False"
| "js_gt PosInfinity b = True"
| "js_gt a PosInfinity = False"
| "js_gt NegInfinity b = False"
| "js_gt (Finite x) NegInfinity = True"
| "js_gt (Finite x) (Finite y) = (y < x)"

fun js_ge :: "js_number \<Rightarrow> js_number \<Rightarrow> bool" where
  "js_ge NaN b = False"
| "js_ge a NaN = False"
| "js_ge PosInfinity b = True"
| "js_ge a NegInfinity = True"
| "js_ge a PosInfinity = False"
| "js_ge NegInfinity b = False"
| "js_ge (Finite x) (Finite y) = (y \<le> x)"

fun Math_min :: "js_number \<Rightarrow> js_number \<Rightarrow> js_number" where
  "Math_min NaN b = NaN"
| "Math_min a NaN = NaN"
| "Math_min a b = (if js_gt a b then b else a)"

text \<open>
  \<open>buffer.subarray(0, end)\<close>: the end is converted to an integer by truncation
  towards zero (NaN to 0), a negative integer counts from the end of the buffer, and
  the result is clamped to the buffer.
\<close>

fun subarray0 :: "'a list \<Rightarrow> js_number \<Rightarrow> 'a list" where
  "subarray0 buffer NaN = []"
| "subarray0 buffer PosInfinity = buffer"
| "subarray0 buffer NegInfinity = []"
| "subarray0 buffer (Finite x) =
     (let relativeEnd = (if 0 \<le> x then \<lfloor>x\<rfloor> else \<lceil>x\<rceil>)
      in if relativeEnd < 0 then take (nat (int (length buffer) + relativeEnd)) buffer
         else take (nat relativeEnd) buffer)"

text \<open>
  A thrown value: an \<open>Error\<close> instance with its \<open>message\<close>, or any other value, carried
  as the text \<open>JSON.stringify\<close> gives for it.
\<close>

datatype thrown = Error_instance jstring | Non_error jstring

section \<open>The fetch pipeline (fetchUrl)\<close>

datatype header_value = Single string | Multi "string list"

text \<open>A value of type \<open>string | null\<close> that can also be \<open>undefined\<close> at run time.\<close>

datatype js_str = JUndefined | JNull | JStr string

record fetch_args =
  arg_url :: jstring
  arg_max_bytes :: "js_number option"
  arg_timeout_ms :: "js_number option"
  arg_follow_redirects :: "bool option"

text \<open>The configuration object handed to \<open>httpClient.get\<close>.\<close>

record request_config =
  req_url :: jstring
  req_params :: "(string \<times> jstring) list"
  req_responseType :: "string option"
  req_timeout :: js_number
  req_maxRedirects :: "nat option"
  req_validateStatus :: "(int \<Rightarrow> bool) option"
  req_headers :: "(string \<times> string) list"

text \<open>
  What the source reads of an Axios response: \<open>resp_responseUrl\<close> is
  \<open>response.request?.res?.responseUrl\<close> and \<open>resp_config_url\<close> is
  \<open>response.config?.url\<close>, \<open>None\<close> when the chain ends in \<open>undefined\<close>.
\<close>

record 'd http_response =
  resp_status :: int
  resp_headers :: "string \<rightharpoonup> header_value"
  resp_data :: 'd
  resp_responseUrl :: "jstring option"
  resp_config_url :: "jstring option"

definition user_agent :: string where
  "user_agent = ''Mozilla/5.0 (Windows NT 10.0; Win64; x64) AppleWebKit/537.36 '' @
                ''(KHTML, like Gecko) Chrome/120.0.0.0 Safari/537.36''"

text \<open>The destructuring defaults of \<open>fetchUrl\<close> and the normalised byte ceiling.\<close>

definition max_bytes_of :: "fetch_args \<Rightarrow> js_number" where
  "max_bytes_of args = (case arg_max_bytes args of None \<Rightarrow> Finite 200000 | Some m \<Rightarrow> m)"

definition timeout_ms_of :: "fetch_args \<Rightarrow> js_number" where
  "timeout_ms_of args = (case arg_timeout_ms args of None \<Rightarrow> Finite 15000 | Some t \<Rightarrow> t)"

definition follow_redirects_of :: "fetch_args \<Rightarrow> bool" where
  "follow_redirects_of args = (case arg_follow_redirects args of None \<Rightarrow> True | Some b \<Rightarrow> b)"

definition maxBytes :: "fetch_args \<Rightarrow> js_number" where
  "maxBytes args =
     (if js_gt (max_bytes_of args) (Finite 0) then max_bytes_of args else Finite 200000)"

definition fetch_request :: "fetch_args \<Rightarrow> request_config" where
  "fetch_request args =
     \<lparr> req_url = arg_url args,
       req_params = [],
       req_responseType = Some ''arraybuffer'',
       req_timeout = timeout_ms_of args,
       req_maxRedirects = Some (if follow_redirects_of args then 5 else 0),
       req_validateStatus = Some (\<lambda>s. True),
       req_headers = [(''User-Agent'', user_agent), (''Accept'', ''*/*'')] \<rparr>"

text \<open>
  \<open>Array.isArray(rawContentType) ? rawContentType[0] : rawContentType || null\<close>
\<close>

definition contentType_of :: "header_value option \<Rightarrow> js_str" where
  "contentType_of rawContentType =
     (case rawContentType of
        Some (Multi []) \<Rightarrow> JUndefined
      | Some (Multi (x # xs)) \<Rightarrow> JStr x
      | Some (Single s) \<Rightarrow> (if s \<noteq> [] then JStr s else JNull)
      | None \<Rightarrow> JNull)"

text \<open>The \<open>contentType\<close> of a response.\<close>

abbreviation contentType_resp :: "'d http_response \<Rightarrow> js_str" where
  "contentType_resp response \<equiv> contentType_of (resp_headers response ''content-type'')"

fun str_truthy :: "js_str \<Rightarrow> bool" where
  "str_truthy (JStr s) = (s \<noteq> [])"
| "str_truthy JNull = False"
| "str_truthy JUndefined = False"

text \<open>
  \<open>contentType.match(/charset=([^;]+)/i)\<close>. \<open>charset_at s\<close> is the match that starts
  at the first character of \<open>s\<close>: \<open>charset=\<close> in any case, then the longest run of
  characters other than \<open>;\<close>, which must not be empty. \<open>charset_match\<close> tries the
  positions from left to right and gives the group of the first match.
\<close>

definition charset_at :: "string \<Rightarrow> string option" where
  "charset_at s =
     (if map ascii_lower (take 8 s) = ''charset=''
         \<and> takeWhile (\<lambda>x. x \<noteq> CHR '';'') (drop 8 s) \<noteq> []
      then Some (takeWhile (\<lambda>x. x \<noteq> CHR '';'') (drop 8 s))
      else None)"

fun charset_match :: "string \<Rightarrow> string option" where
  "charset_match [] = None"
| "charset_match (c # cs) =
     (case charset_at (c # cs) of Some g \<Rightarrow> Some g | None \<Rightarrow> charset_match cs)"

definition detect_encoding :: "js_str \<Rightarrow> string option" where
  "detect_encoding contentType =
     (case contentType of
        JStr s \<Rightarrow>
          (if s \<noteq> [] then
             (case charset_match s of
                Some g \<Rightarrow> Some (toLowerCase (trim_latin1 g))
              | None \<Rightarrow> None)
           else None)
      | JNull \<Rightarrow> None
      | JUndefined \<Rightarrow> None)"

definition limit_buffer :: "byte list \<Rightarrow> js_number \<Rightarrow> byte list \<times> bool" where
  "limit_buffer buffer mb =
     (if js_gt (Finite (of_nat (length buffer))) mb then (subarray0 buffer mb, True)
      else (buffer, False))"

definition ct_of :: "js_str \<Rightarrow> string" where
  "ct_of contentType =
     (case contentType of JStr s \<Rightarrow> (if s \<noteq> [] then toLowerCase s else [])
      | JNull \<Rightarrow> [] | JUndefined \<Rightarrow> [])"

definition isBinary :: "string \<Rightarrow> bool" where
  "isBinary ct =
     (prefix ''image/'' ct \<or>
      prefix ''audio/'' ct \<or>
      prefix ''video/'' ct \<or>
      (prefix ''application/'' ct \<and>
        (prefix ''pdf'' (drop 12 ct) \<or> prefix ''zip'' (drop 12 ct) \<or> prefix ''x-'' (drop 12 ct))) \<or>
      ct = ''application/octet-stream'')"

fun enc_truthy :: "string option \<Rightarrow> bool" where
  "enc_truthy None = False"
| "enc_truthy (Some s) = (s \<noteq> [])"

text \<open>\<open>encoding || 'utf-8'\<close>\<close>

definition charset_of :: "string option \<Rightarrow> string" where
  "charset_of enc =
     (case enc of None \<Rightarrow> ''utf-8'' | Some s \<Rightarrow> (if s \<noteq> [] then s else ''utf-8''))"

text \<open>
  The body and the final value of \<open>encoding\<close>. \<open>decoder label bytes\<close> stands for
  \<open>new TextDecoder(label).decode(bytes)\<close>, \<open>Inl\<close> when it throws. A throw of the
  fallback decoder leaves the inner \<open>catch\<close> and reaches the outer one.
\<close>

definition decode_body ::
  "(string \<Rightarrow> byte list \<Rightarrow> thrown + jstring) \<Rightarrow> bool \<Rightarrow> string option \<Rightarrow> byte list
     \<Rightarrow> thrown + (jstring \<times> string option)" where
  "decode_body decoder is_binary enc limitedBuffer =
     (if is_binary then Inr (js ''Unsupported content-type'', enc)
      else
        (case decoder (charset_of enc) limitedBuffer of
           Inr b \<Rightarrow> Inr (b, enc)
         | Inl e \<Rightarrow>
             (case decoder ''utf-8'' limitedBuffer of
                Inl e' \<Rightarrow> Inl e'
              | Inr b \<Rightarrow> Inr (b, if \<not> enc_truthy enc then Some ''utf-8'' else enc))))"

text \<open>
  \<open>finalUrl\<close>: the transport's \<open>responseUrl\<close> when truthy, else the \<open>url\<close> of the
  response's config when truthy, else the requested \<open>url\<close>.
\<close>

definition finalUrl_of :: "jstring \<Rightarrow> 'd http_response \<Rightarrow> jstring" where
  "finalUrl_of u response =
     (case resp_responseUrl response of
        Some r \<Rightarrow>
          (if r \<noteq> [] then r
           else (case resp_config_url response of
                   Some c \<Rightarrow> (if c \<noteq> [] then c else u) | None \<Rightarrow> u))
      | None \<Rightarrow>
          (case resp_config_url response of
             Some c \<Rightarrow> (if c \<noteq> [] then c else u) | None \<Rightarrow> u))"

record FetchResult =
  url :: jstring
  final_url :: jstring
  status :: int
  content_type :: js_str
  encoding :: "string option"
  headers :: "string \<rightharpoonup> header_value"
  body :: jstring
  truncated :: bool

text \<open>The body of the \<open>try\<close> block of \<open>fetchUrl\<close>: \<open>Inl\<close> is a throw.\<close>

definition fetchUrl_try ::
  "(request_config \<Rightarrow> thrown + byte list http_response)
     \<Rightarrow> (string \<Rightarrow> byte list \<Rightarrow> thrown + jstring) \<Rightarrow> fetch_args \<Rightarrow> thrown + FetchResult" where
  "fetchUrl_try http_get decoder args =
     (case http_get (fetch_request args) of
        Inl e \<Rightarrow> Inl e
      | Inr response \<Rightarrow>
          (let contentType = contentType_of (resp_headers response ''content-type'');
               encoding = detect_encoding contentType;
               buffer = resp_data response;
               (limitedBuffer, trunc) = limit_buffer buffer (maxBytes args);
               ct = ct_of contentType
           in case decode_body decoder (isBinary ct) encoding limitedBuffer of
                Inl e \<Rightarrow> Inl e
              | Inr (b, enc) \<Rightarrow>
                  Inr \<lparr> url = arg_url args,
                        final_url = finalUrl_of (arg_url args) response,
                        status = resp_status response,
                        content_type = contentType,
                        encoding = enc,
                        headers = resp_headers response,
                        body = b,
                        truncated = trunc \<rparr>))"

definition thrown_message :: "thrown \<Rightarrow> jstring" where
  "thrown_message error = (case error of Error_instance m \<Rightarrow> m | Non_error j \<Rightarrow> j)"

definition fetchUrl ::
  "(request_config \<Rightarrow> thrown + byte list http_response)
     \<Rightarrow> (string \<Rightarrow> byte list \<Rightarrow> thrown + jstring) \<Rightarrow> fetch_args \<Rightarrow> FetchResult" where
  "fetchUrl http_get decoder args =
     (case fetchUrl_try http_get decoder args of
        Inr fetchResult \<Rightarrow> fetchResult
      | Inl error \<Rightarrow>
          \<lparr> url = arg_url args,
            final_url = arg_url args,
            status = 0,
            content_type = JNull,
            encoding = None,
            headers = Map.empty,
            body = thrown_message error,
            truncated = False \<rparr>)"

section \<open>The search extractor (performSearch)\<close>

record SearchResult =
  title :: jstring
  result_url :: jstring
  description :: jstring

text \<open>
  What the callback reads of one \<open>.result\<close> element:
  \<open>$el.find('.result__title a').text()\<close>, \<open>$el.find('.result__title a').attr('href')\<close>
  (\<open>None\<close> for \<open>undefined\<close>) and \<open>$el.find('.result__snippet').text()\<close>.
\<close>

record container =
  title_anchor_text :: jstring
  title_anchor_href :: "jstring option"
  snippet_text :: jstring

text \<open>The record the callback pushes for an element, \<open>None\<close> when it pushes nothing.\<close>

definition result_of :: "container \<Rightarrow> SearchResult option" where
  "result_of el =
     (let t = trim (title_anchor_text el);
          u = (case title_anchor_href el of None \<Rightarrow> [] | Some h \<Rightarrow> h);
          d = trim (snippet_text el)
      in if t \<noteq> [] \<and> u \<noteq> [] then Some \<lparr> title = t, result_url = u, description = d \<rparr>
         else None)"

text \<open>
  \<open>$('.result').each(...)\<close> over the elements in document order; the callback's
  \<open>return false\<close> ends the iteration.
\<close>

fun each_result :: "js_number \<Rightarrow> container list \<Rightarrow> SearchResult list \<Rightarrow> SearchResult list" where
  "each_result limit [] results = results"
| "each_result limit (el # els) results =
     (if js_ge (Finite (of_nat (length results))) limit then results
      else each_result limit els
             (case result_of el of Some r \<Rightarrow> results @ [r] | None \<Rightarrow> results))"

definition search_request :: "jstring \<Rightarrow> request_config" where
  "search_request query =
     \<lparr> req_url = js ''https://html.duckduckgo.com/html/'',
       req_params = [(''q'', query), (''s'', js ''0'')],
       req_responseType = None,
       req_timeout = Finite 15000,
       req_maxRedirects = None,
       req_validateStatus = None,
       req_headers =
         [(''User-Agent'', user_agent),
          (''Accept'',
           ''text/html,application/xhtml+xml,application/xml;q=0.9,image/webp,*/*;q=0.8''),
          (''Accept-Language'', ''en-US,en;q=0.5''),
          (''Accept-Encoding'', ''identity''),
          (''Referer'', ''https://duckduckgo.com/'')] \<rparr>"

text \<open>
  The body of the \<open>try\<close> block of \<open>performSearch\<close>. \<open>http_get\<close> is the shared client
  (with Axios' default \<open>validateStatus\<close> it throws on a status outside 2xx);
  \<open>load\<close> stands for \<open>cheerio.load\<close> followed by the selection of the \<open>.result\<close>
  elements.
\<close>

definition performSearch_try ::
  "(request_config \<Rightarrow> thrown + 'h http_response) \<Rightarrow> ('h \<Rightarrow> thrown + container list)
     \<Rightarrow> jstring \<Rightarrow> js_number \<Rightarrow> thrown + SearchResult list" where
  "performSearch_try http_get load query limit =
     (case http_get (search_request query) of
        Inl e \<Rightarrow> Inl e
      | Inr response \<Rightarrow>
          (case load (resp_data response) of
             Inl e \<Rightarrow> Inl e
           | Inr els \<Rightarrow> Inr (each_result limit els [])))"

text \<open>A line written by \<open>console.error\<close>: its label and the value logged.\<close>

datatype log_entry = Console_error string thrown

definition search_error_description :: "thrown \<Rightarrow> jstring" where
  "search_error_description error =
     (case error of Error_instance m \<Rightarrow> m | Non_error j \<Rightarrow> js ''Unknown error'')"

definition performSearch ::
  "(request_config \<Rightarrow> thrown + 'h http_response) \<Rightarrow> ('h \<Rightarrow> thrown + container list)
     \<Rightarrow> jstring \<Rightarrow> js_number \<Rightarrow> SearchResult list \<times> log_entry list" where
  "performSearch http_get load query limit =
     (case performSearch_try http_get load query limit of
        Inr results \<Rightarrow> (results, [])
      | Inl error \<Rightarrow>
          ([\<lparr> title = js ''Search error'', result_url = [],
              description = search_error_description error \<rparr>],
           [Console_error ''DuckDuckGo search error:'' error]))"

section \<open>The dispatch of the search tool\<close>

text \<open>\<open>Math.min(request.params.arguments.limit || 5, 10)\<close>\<close>

definition search_limit :: "js_number option \<Rightarrow> js_number" where
  "search_limit l =
     Math_min (case l of None \<Rightarrow> Finite 5
               | Some n \<Rightarrow> (if number_truthy n then n else Finite 5))
              (Finite 10)"

definition callTool_search ::
  "(request_config \<Rightarrow> thrown + 'h http_response) \<Rightarrow> ('h \<Rightarrow> thrown + container list)
     \<Rightarrow> jstring \<Rightarrow> js_number option \<Rightarrow> SearchResult list \<times> log_entry list" where
  "callTool_search http_get load query l = performSearch http_get load query (search_limit l)"

section \<open>The HTTP client factory (createHttpClient)\<close>

text \<open>
  The default Axios instance, or one created with \<open>proxy: false\<close> and the agent as
  \<open>httpsAgent\<close>.
\<close>

datatype 'a http_client = Axios_default | Axios_create 'a

text \<open>\<open>a || b\<close> on values that are a string or \<open>undefined\<close>.\<close>

definition or_env :: "jstring option \<Rightarrow> jstring option \<Rightarrow> jstring option" where
  "or_env a b = (case a of Some s \<Rightarrow> (if s \<noteq> [] then a else b) | None \<Rightarrow> b)"

definition proxyEnv :: "(string \<rightharpoonup> jstring) \<Rightarrow> jstring option" where
  "proxyEnv env =
     or_env (or_env (or_env (env ''HTTPS_PROXY'') (env ''https_proxy'')) (env ''HTTP_PROXY''))
            (env ''http_proxy'')"

text \<open>
  \<open>mk_agent\<close> stands for \<open>new HttpsProxyAgent(proxyEnv)\<close>, \<open>Inl\<close> when the constructor
  throws. The second component is what the call writes with \<open>console.error\<close>.
\<close>

definition createHttpClient ::
  "(jstring \<Rightarrow> thrown + 'a) \<Rightarrow> (string \<rightharpoonup> jstring) \<Rightarrow> 'a http_client \<times> log_entry list" where
  "createHttpClient mk_agent env =
     (case proxyEnv env of
        None \<Rightarrow> (Axios_default, [])
      | Some p \<Rightarrow>
          (if p = [] then (Axios_default, [])
           else (case mk_agent p of
                   Inr agent \<Rightarrow> (Axios_create agent, [])
                 | Inl error \<Rightarrow>
                     (Axios_default,
                      [Console_error ''Invalid proxy configuration in HTTPS_PROXY/HTTP_PROXY:''
                         error]))))"

section \<open>Notions taken from the specification\<close>

text \<open>
  The specification's list of binary content types: image/*, audio/*, video/*,
  application/pdf, application/zip, any application/x-*, or exactly
  application/octet-stream. A pattern matches a content type that starts with it.
\<close>

definition binary_content_type :: "string \<Rightarrow> bool" where
  "binary_content_type ct =
     ((\<exists>p \<in> set [''image/'', ''audio/'', ''video/'', ''application/pdf'', ''application/zip'',
                    ''application/x-'']. prefix p ct)
      \<or> ct = ''application/octet-stream'')"

text \<open>
  The byte ceiling of the specification: \<open>max_bytes\<close> when it is a positive number,
  200000 otherwise.
\<close>

definition byte_ceiling :: "js_number option \<Rightarrow> js_number" where
  "byte_ceiling max_bytes =
     (case max_bytes of
        Some (Finite x) \<Rightarrow> (if 0 < x then Finite x else Finite 200000)
      | Some PosInfinity \<Rightarrow> PosInfinity
      | Some NegInfinity \<Rightarrow> Finite 200000
      | Some NaN \<Rightarrow> Finite 200000
      | None \<Rightarrow> Finite 200000)"

text \<open>
  The proxy address of the specification: the first non-empty value among the four
  variables, in their priority order.
\<close>

fun first_non_empty :: "jstring option list \<Rightarrow> jstring option" where
  "first_non_empty [] = None"
| "first_non_empty (None # vs) = first_non_empty vs"
| "first_non_empty (Some s # vs) = (if s \<noteq> [] then Some s else first_non_empty vs)"

definition proxy_vars :: "(string \<rightharpoonup> jstring) \<Rightarrow> jstring option list" where
  "proxy_vars env = [env ''HTTPS_PROXY'', env ''https_proxy'', env ''HTTP_PROXY'', env ''http_proxy'']"

section \<open>Example inputs\<close>

definition png_response :: "byte list http_response" where
  "png_response =
     \<lparr> resp_status = 200,
       resp_headers = [''content-type'' \<mapsto> Single ''Image/PNG''],
       resp_data = [0x89, 0x50, 0x4E, 0x47, 0x0D],
       resp_responseUrl = Some (js ''http://h/a.png''),
       resp_config_url = Some (js ''http://h/a.png'') \<rparr>"

definition png_args :: fetch_args where
  "png_args = \<lparr> arg_url = js ''http://h/a.png'', arg_max_bytes = Some (Finite 4),
                arg_timeout_ms = None, arg_follow_redirects = None \<rparr>"

definition page_example :: "container list" where
  "page_example =
     [\<lparr> title_anchor_text = js '' First  '', title_anchor_href = Some (js ''http://a/''),
        snippet_text = js ''one '' \<rparr>,
      \<lparr> title_anchor_text = js ''No link'', title_anchor_href = None,
        snippet_text = js ''two'' \<rparr>,
      \<lparr> title_anchor_text = js ''   '', title_anchor_href = Some (js ''http://b/''),
        snippet_text = js ''three'' \<rparr>,
      \<lparr> title_anchor_text = js ''Fourth'', title_anchor_href = Some (js ''http://d/''),
        snippet_text = [] \<rparr>,
      \<lparr> title_anchor_text = js ''Fifth'', title_anchor_href = Some (js ''http://e/''),
        snippet_text = js ''five'' \<rparr>]"

definition html_response :: "jstring http_response" where
  "html_response =
     \<lparr> resp_status = 200, resp_headers = Map.empty, resp_data = js ''<html></html>'',
       resp_responseUrl = None, resp_config_url = None \<rparr>"

text \<open>
  A decoder that knows the labels \<open>utf-8\<close> and \<open>iso-8859-1\<close>, reads one character per
  byte, and throws on any other label.
\<close>

definition latin1_decoder :: "string \<Rightarrow> byte list \<Rightarrow> thrown + jstring" where
  "latin1_decoder label bytes =
     (if label = ''utf-8'' \<or> label = ''iso-8859-1'' then Inr (map (\<lambda>b. of_nat (unat b)) bytes)
      else Inl (Error_instance (js ''The encoding label provided is invalid'')))"

definition text_response :: "string \<Rightarrow> byte list http_response" where
  "text_response ctype =
     \<lparr> resp_status = 200,
       resp_headers = [''content-type'' \<mapsto> Single ctype],
       resp_data = [0x66, 0x6F, 0x6F, 0x62, 0x61, 0x72],
       resp_responseUrl = Some (js ''http://h/t''),
       resp_config_url = Some (js ''http://h/t'') \<rparr>"

definition text_args :: fetch_args where
  "text_args = \<lparr> arg_url = js ''http://h/t'', arg_max_bytes = Some (Finite 4),
                 arg_timeout_ms = None, arg_follow_redirects = None \<rparr>"

definition koi8_type :: string where
  "koi8_type = ''text/html; Charset=KOI8-R ;x=1''"

definition redirect_response :: "byte list http_response" where
  "redirect_response =
     \<lparr> resp_status = 302,
       resp_headers = [''content-type'' \<mapsto> Single ''text/html'',
                       ''location'' \<mapsto> Single ''http://h/new''],
       resp_data = [],
       resp_responseUrl = None,
       resp_config_url = Some (js ''http://h/old'') \<rparr>"

definition redirect_args :: fetch_args where
  "redirect_args = \<lparr> arg_url = js ''http://h/old'', arg_max_bytes = None,
                     arg_timeout_ms = Some (Finite 1000), arg_follow_redirects = Some False \<rparr>"

definition link_container :: container where
  "link_container = \<lparr> title_anchor_text = js ''T'', title_anchor_href = Some (js ''http://x/''),
                       snippet_text = [] \<rparr>"

text \<open>A client that answers every request with \<open>html_response\<close>, and a page of eleven results.\<close>

definition html_client :: "request_config \<Rightarrow> thrown + jstring http_response" where
  "html_client c = Inr html_response"

definition eleven_links :: "jstring \<Rightarrow> thrown + container list" where
  "eleven_links h = Inr (replicate 11 link_container)"

definition env_example :: "string \<rightharpoonup> jstring" where
  "env_example = [''HTTPS_PROXY'' \<mapsto> [], ''HTTP_PROXY'' \<mapsto> js ''not a url'',
                  ''http_proxy'' \<mapsto> js ''http://proxy:3128'']"

definition agent_example :: "jstring \<Rightarrow> thrown + jstring" where
  "agent_example p =
     (if p = js ''not a url'' then Inl (Error_instance (js ''Invalid URL'')) else Inr p)"

section \<open>The fetch pipeline: what a response becomes\<close>

lemma fetchUrl_try_response:
  assumes "http_get (fetch_request args) = Inr response"
  shows "fetchUrl_try http_get decoder args =
     (case decode_body decoder
             (isBinary (ct_of (contentType_resp response)))
             (detect_encoding (contentType_resp response))
             (fst (limit_buffer (resp_data response) (maxBytes args))) of
        Inl e \<Rightarrow> Inl e
      | Inr (b, enc) \<Rightarrow>
          Inr \<lparr> url = arg_url args,
                final_url = finalUrl_of (arg_url args) response,
                status = resp_status response,
                content_type = contentType_resp response,
                encoding = enc,
                headers = resp_headers response,
                body = b,
                truncated = snd (limit_buffer (resp_data response) (maxBytes args)) \<rparr>)"
  using assms by (simp add: fetchUrl_try_def Let_def split: prod.splits sum.splits)

lemma fetchUrl_try_throw:
  "http_get (fetch_request args) = Inl e \<Longrightarrow> fetchUrl_try http_get decoder args = Inl e"
  by (simp add: fetchUrl_try_def)

lemma snd_limit_buffer:
  "snd (limit_buffer buffer mb) = js_gt (Finite (real (length buffer))) mb"
  by (simp add: limit_buffer_def)

lemma fetchUrl_try_fetchUrl:
  "fetchUrl_try http_get decoder args = Inr res \<Longrightarrow> fetchUrl http_get decoder args = res"
  by (simp add: fetchUrl_def)

lemma fetchUrl_try_Inr:
  assumes "http_get (fetch_request args) = Inr response"
      and "fetchUrl_try http_get decoder args = Inr res"
  shows "decode_body decoder
             (isBinary (ct_of (contentType_resp response)))
             (detect_encoding (contentType_resp response))
             (fst (limit_buffer (resp_data response) (maxBytes args)))
           = Inr (body res, encoding res)
       \<and> url res = arg_url args
       \<and> final_url res = finalUrl_of (arg_url args) response
       \<and> status res = resp_status response
       \<and> content_type res = contentType_resp response
       \<and> headers res = resp_headers response
       \<and> truncated res = js_gt (Finite (real (length (resp_data response)))) (maxBytes args)"
  using assms(2)
  unfolding fetchUrl_try_response [of http_get args response decoder, OF assms(1)]
  by (auto simp add: snd_limit_buffer split: sum.splits prod.splits)

lemma fetchUrl_binary:
  assumes "http_get (fetch_request args) = Inr response"
      and "isBinary (ct_of (contentType_resp response))"
  shows "fetchUrl http_get decoder args =
          \<lparr> url = arg_url args,
            final_url = finalUrl_of (arg_url args) response,
            status = resp_status response,
            content_type = contentType_resp response,
            encoding = detect_encoding (contentType_resp response),
            headers = resp_headers response,
            body = js ''Unsupported content-type'',
            truncated = js_gt (Finite (real (length (resp_data response)))) (maxBytes args) \<rparr>"
  using assms
  by (simp add: fetchUrl_def fetchUrl_try_response decode_body_def snd_limit_buffer)

lemma fetchUrl_text:
  assumes "http_get (fetch_request args) = Inr response"
      and "\<not> isBinary (ct_of (contentType_resp response))"
      and "decode_body decoder False (detect_encoding (contentType_resp response))
             (fst (limit_buffer (resp_data response) (maxBytes args))) = Inr (b, enc)"
  shows "body (fetchUrl http_get decoder args) = b \<and> encoding (fetchUrl http_get decoder args) = enc"
  using assms(2,3)
  by (simp add: fetchUrl_def fetchUrl_try_response [of http_get args response decoder, OF assms(1)])

lemma decode_body_text:
  assumes "decode_body decoder False enc buf = Inr (b, enc')"
  shows "(decoder (charset_of enc) buf = Inr b \<and> enc' = enc)
       \<or> ((\<exists>e. decoder (charset_of enc) buf = Inl e) \<and> decoder ''utf-8'' buf = Inr b
           \<and> enc' = (if enc_truthy enc then enc else Some ''utf-8''))"
  using assms by (auto simp add: decode_body_def split: sum.splits if_splits)

subsection \<open>Evaluation of the example responses\<close>

lemma png_ct: "ct_of (contentType_resp png_response) = ''image/png''"
  by code_simp

lemma png_binary: "isBinary (ct_of (contentType_resp png_response))"
  unfolding png_ct by (simp add: isBinary_def)

lemma png_max: "maxBytes png_args = Finite 4"
  by (simp add: maxBytes_def max_bytes_of_def png_args_def)

lemma text_plain_ct: "ct_of (JStr ''text/plain'') = ''text/plain''"
  by code_simp

lemma text_plain_enc: "detect_encoding (JStr ''text/plain'') = None"
  by code_simp

lemma text_max: "maxBytes text_args = Finite 4"
  by (simp add: maxBytes_def max_bytes_of_def text_args_def)

lemma text_limited:
  "limit_buffer [0x66, 0x6F, 0x6F, 0x62, 0x61, 0x72] (Finite 4) = ([0x66, 0x6F, 0x6F, 0x62], True)"
  by (simp add: limit_buffer_def)

lemma latin1_foob: "latin1_decoder ''utf-8'' [0x66, 0x6F, 0x6F, 0x62] = Inr (js ''foob'')"
  by (simp add: latin1_decoder_def js_def)

lemma text_plain_try:
  "fetchUrl_try (\<lambda>c. Inr (text_response ''text/plain'')) latin1_decoder text_args
     = Inr \<lparr> url = js ''http://h/t'', final_url = js ''http://h/t'', status = 200,
             content_type = JStr ''text/plain'', encoding = None,
             headers = [''content-type'' \<mapsto> Single ''text/plain''],
             body = js ''foob'', truncated = True \<rparr>"
proof -
  have n: "\<not> isBinary ''text/plain''" by (simp add: isBinary_def)
  have f: "js ''http://h/t'' \<noteq> []" by (simp add: js_def)
  have a: "arg_url text_args = js ''http://h/t''" by (simp add: text_args_def)
  show ?thesis
    by (simp add: fetchUrl_try_response [of _ _ "text_response ''text/plain''"]
          text_response_def contentType_of_def finalUrl_of_def
          n f a text_plain_enc text_plain_ct
          text_max text_limited decode_body_def charset_of_def latin1_foob)
qed

lemma koi8_match: "charset_match koi8_type = Some ''KOI8-R ''"
  by code_simp

lemma koi8_enc: "detect_encoding (JStr koi8_type) = Some ''koi8-r''"
  by code_simp

lemma koi8_text: "\<not> isBinary (ct_of (JStr koi8_type))"
  by code_simp

lemma koi8_contentType: "contentType_resp (text_response koi8_type) = JStr koi8_type"
  by (simp add: text_response_def contentType_of_def koi8_type_def)

lemma text_buf:
  "fst (limit_buffer (resp_data (text_response c)) (maxBytes text_args)) = [0x66, 0x6F, 0x6F, 0x62]"
  by (simp add: text_max text_response_def text_limited)

lemma latin1_koi8: "latin1_decoder ''koi8-r'' buf
   = Inl (Error_instance (js ''The encoding label provided is invalid''))"
  by (simp add: latin1_decoder_def)

lemma redirect_try:
  "fetchUrl_try (\<lambda>c. Inr redirect_response) latin1_decoder redirect_args
     = Inr \<lparr> url = js ''http://h/old'', final_url = js ''http://h/old'', status = 302,
             content_type = JStr ''text/html'', encoding = None,
             headers = [''content-type'' \<mapsto> Single ''text/html'',
                        ''location'' \<mapsto> Single ''http://h/new''],
             body = [], truncated = False \<rparr>"
proof -
  have n: "\<not> isBinary ''text/html''" by (simp add: isBinary_def)
  have f: "js ''http://h/old'' \<noteq> []" by (simp add: js_def)
  have a: "arg_url redirect_args = js ''http://h/old''" by (simp add: redirect_args_def)
  have e: "detect_encoding (JStr ''text/html'') = None" by code_simp
  have t: "ct_of (JStr ''text/html'') = ''text/html''" by code_simp
  have m: "maxBytes redirect_args = Finite 200000"
    by (simp add: maxBytes_def max_bytes_of_def redirect_args_def)
  show ?thesis
    by (simp add: fetchUrl_try_response [of _ _ redirect_response]
          redirect_response_def contentType_of_def finalUrl_of_def
          n f a e t m limit_buffer_def decode_body_def charset_of_def latin1_decoder_def)
qed

subsection \<open>Failure of the request\<close>

text \<open>
  C1. When the HTTP request throws, \<open>fetchUrl\<close> returns (it does not throw) the result
  with status 0, content type and encoding null, no headers, \<open>truncated = false\<close>, the
  requested address as both \<open>url\<close> and \<open>final_url\<close>, and as body the text the
  \<open>catch\<close> block takes from the thrown value: the \<open>message\<close> of an \<open>Error\<close>.
\<close>

theorem fetch_request_failure:
  assumes "http_get (fetch_request args) = Inl e"
  shows "fetchUrl http_get decoder args =
           \<lparr> url = arg_url args, final_url = arg_url args, status = 0, content_type = JNull,
             encoding = None, headers = Map.empty, body = thrown_message e,
             truncated = False \<rparr>
         \<and> (\<forall>m. e = Error_instance m \<longrightarrow> body (fetchUrl http_get decoder args) = m)"
  using assms by (auto simp add: fetchUrl_def fetchUrl_try_throw thrown_message_def)

theorem fetch_request_failure_witness:
  "fetchUrl (\<lambda>c. Inl (Error_instance (js ''getaddrinfo ENOTFOUND nowhere.invalid'')))
            (\<lambda>l b. Inr [])
            \<lparr> arg_url = js ''http://nowhere.invalid/'', arg_max_bytes = Some (Finite 10),
              arg_timeout_ms = None, arg_follow_redirects = Some False \<rparr>
   = \<lparr> url = js ''http://nowhere.invalid/'', final_url = js ''http://nowhere.invalid/'',
       status = 0, content_type = JNull, encoding = None, headers = Map.empty,
       body = js ''getaddrinfo ENOTFOUND nowhere.invalid'', truncated = False \<rparr>"
  using fetch_request_failure
    [of "\<lambda>c. Inl (Error_instance (js ''getaddrinfo ENOTFOUND nowhere.invalid''))"
      "\<lparr> arg_url = js ''http://nowhere.invalid/'', arg_max_bytes = Some (Finite 10),
              arg_timeout_ms = None, arg_follow_redirects = Some False \<rparr>"
      "Error_instance (js ''getaddrinfo ENOTFOUND nowhere.invalid'')" "\<lambda>l b. Inr []"]
  by (simp add: thrown_message_def)

subsection \<open>Truncation\<close>

lemma maxBytes_ceiling: "maxBytes args = byte_ceiling (arg_max_bytes args)"
  by (simp add: maxBytes_def max_bytes_of_def byte_ceiling_def
           split: option.splits js_number.splits)

lemma fst_limit_buffer_nat:
  "n < length buffer \<Longrightarrow> fst (limit_buffer buffer (Finite (real n))) = take n buffer"
  by (simp add: limit_buffer_def)

lemma fst_limit_buffer_real:
  "0 < x \<Longrightarrow> x < real (length buffer) \<Longrightarrow>
     fst (limit_buffer buffer (Finite x)) = take (nat \<lfloor>x\<rfloor>) buffer"
  by (simp add: limit_buffer_def)

lemma byte_ceiling_pos: "byte_ceiling m = Finite x \<Longrightarrow> 0 < x"
  by (auto simp add: byte_ceiling_def split: option.splits js_number.splits if_splits)

lemma fst_limit_buffer_short:
  "\<not> js_gt (Finite (real (length buffer))) mb \<Longrightarrow> fst (limit_buffer buffer mb) = buffer"
  by (simp add: limit_buffer_def)

text \<open>
  C4. For a fetch whose \<open>try\<close> block completes, the ceiling used is \<open>max_bytes\<close> when
  that is a positive number and 200000 otherwise; \<open>truncated\<close> is true exactly when
  the raw response is longer than the ceiling; the bytes kept are then the first
  \<open>n\<close> bytes for a whole ceiling \<open>n\<close> (the first \<open>floor x\<close> bytes for a ceiling \<open>x\<close> in
  general) and all bytes otherwise; and the body of a response that is not binary
  is a decoding of exactly the bytes kept.
\<close>

theorem fetch_truncation:
  assumes "http_get (fetch_request args) = Inr response"
      and "fetchUrl_try http_get decoder args = Inr res"
  shows "maxBytes args = byte_ceiling (arg_max_bytes args)
       \<and> truncated res
           = js_gt (Finite (real (length (resp_data response)))) (byte_ceiling (arg_max_bytes args))
       \<and> (\<forall>n. byte_ceiling (arg_max_bytes args) = Finite (real n) \<and> n < length (resp_data response)
             \<longrightarrow> fst (limit_buffer (resp_data response) (maxBytes args))
                   = take n (resp_data response))
       \<and> (\<forall>x. byte_ceiling (arg_max_bytes args) = Finite x \<and> x < real (length (resp_data response))
             \<longrightarrow> fst (limit_buffer (resp_data response) (maxBytes args))
                   = take (nat \<lfloor>x\<rfloor>) (resp_data response))
       \<and> (\<not> truncated res
             \<longrightarrow> fst (limit_buffer (resp_data response) (maxBytes args)) = resp_data response)
       \<and> (isBinary (ct_of (contentType_resp response))
          \<or> decoder (charset_of (detect_encoding (contentType_resp response)))
               (fst (limit_buffer (resp_data response) (maxBytes args))) = Inr (body res)
          \<or> decoder ''utf-8''
               (fst (limit_buffer (resp_data response) (maxBytes args))) = Inr (body res))"
proof -
  note r = fetchUrl_try_Inr [OF assms]
  have t: "truncated res
     = js_gt (Finite (real (length (resp_data response)))) (byte_ceiling (arg_max_bytes args))"
    using r by (simp add: maxBytes_ceiling)
  have n: "\<forall>n. byte_ceiling (arg_max_bytes args) = Finite (real n) \<and> n < length (resp_data response)
             \<longrightarrow> fst (limit_buffer (resp_data response) (maxBytes args))
                   = take n (resp_data response)"
    by (simp add: maxBytes_ceiling fst_limit_buffer_nat)
  have x: "\<forall>x. byte_ceiling (arg_max_bytes args) = Finite x \<and> x < real (length (resp_data response))
             \<longrightarrow> fst (limit_buffer (resp_data response) (maxBytes args))
                   = take (nat \<lfloor>x\<rfloor>) (resp_data response)"
    using byte_ceiling_pos [of "arg_max_bytes args"]
    by (simp add: maxBytes_ceiling fst_limit_buffer_real)
  have s: "\<not> truncated res
             \<longrightarrow> fst (limit_buffer (resp_data response) (maxBytes args)) = resp_data response"
    using r by (simp add: fst_limit_buffer_short)
  have d: "isBinary (ct_of (contentType_resp response))
          \<or> decoder (charset_of (detect_encoding (contentType_resp response)))
               (fst (limit_buffer (resp_data response) (maxBytes args))) = Inr (body res)
          \<or> decoder ''utf-8''
               (fst (limit_buffer (resp_data response) (maxBytes args))) = Inr (body res)"
  proof (cases "isBinary (ct_of (contentType_resp response))")
    case True
    then show ?thesis by simp
  next
    case False
    with r have "decode_body decoder False (detect_encoding (contentType_resp response))
             (fst (limit_buffer (resp_data response) (maxBytes args)))
           = Inr (body res, encoding res)" by simp
    from decode_body_text [OF this] show ?thesis by blast
  qed
  show ?thesis by (intro conjI maxBytes_ceiling t n x s d)
qed

theorem fetch_truncation_witness:
  "truncated (fetchUrl (\<lambda>c. Inr (text_response ''text/plain'')) latin1_decoder text_args)
   \<and> body (fetchUrl (\<lambda>c. Inr (text_response ''text/plain'')) latin1_decoder text_args)
       = js ''foob''
   \<and> byte_ceiling (arg_max_bytes text_args) = Finite 4
   \<and> take 4 (resp_data (text_response ''text/plain'')) = [0x66, 0x6F, 0x6F, 0x62]
   \<and> latin1_decoder ''utf-8'' (take 4 (resp_data (text_response ''text/plain''))) = Inr (js ''foob'')"
  using fetch_truncation [of "\<lambda>c. Inr (text_response ''text/plain'')" text_args
          "text_response ''text/plain''" latin1_decoder, OF refl text_plain_try]
    text_plain_try latin1_foob
  by (simp add: fetchUrl_def text_args_def byte_ceiling_def text_response_def)

subsection \<open>Binary content\<close>

lemma prefix_append_drop:
  "length a = n \<Longrightarrow> prefix (a @ b) s \<longleftrightarrow> prefix a s \<and> prefix b (drop n s)"
  by (auto simp add: prefix_def)

lemma application_prefix:
  "(prefix ''application/'' ct \<and> prefix b (drop 12 ct)) = prefix (''application/'' @ b) ct"
  by (rule prefix_append_drop [symmetric]) simp

lemma application_kinds:
  "(prefix ''application/'' ct \<and>
        (prefix ''pdf'' (drop 12 ct) \<or> prefix ''zip'' (drop 12 ct) \<or> prefix ''x-'' (drop 12 ct)))
     = (prefix ''application/pdf'' ct \<or> prefix ''application/zip'' ct \<or> prefix ''application/x-'' ct)"
proof -
  have "prefix ''application/pdf'' ct = (prefix ''application/'' ct \<and> prefix ''pdf'' (drop 12 ct))"
    using application_prefix [of ct "''pdf''"] by (simp only: append.simps)
  moreover have "prefix ''application/zip'' ct = (prefix ''application/'' ct \<and> prefix ''zip'' (drop 12 ct))"
    using application_prefix [of ct "''zip''"] by (simp only: append.simps)
  moreover have "prefix ''application/x-'' ct = (prefix ''application/'' ct \<and> prefix ''x-'' (drop 12 ct))"
    using application_prefix [of ct "''x-''"] by (simp only: append.simps)
  ultimately show ?thesis by blast
qed

lemma binary_content_type_unfold:
  "binary_content_type ct =
     (prefix ''image/'' ct \<or> prefix ''audio/'' ct \<or> prefix ''video/'' ct \<or>
      prefix ''application/pdf'' ct \<or> prefix ''application/zip'' ct \<or>
      prefix ''application/x-'' ct \<or> ct = ''application/octet-stream'')"
  unfolding binary_content_type_def
  by (simp only: list.set bex_simps insert_iff empty_iff) blast

lemma isBinary_spec: "isBinary ct = binary_content_type ct"
  unfolding binary_content_type_unfold isBinary_def application_kinds by blast

text \<open>
  C5. The classification of \<open>fetchUrl\<close> (on the lower-cased content type) is the
  specification's list of binary content types, and a response classified as binary
  gets the body \<open>Unsupported content-type\<close>, whatever its bytes and whatever the
  decoder would do.
\<close>

theorem binary_classification:
  "isBinary ct = binary_content_type ct
   \<and> (http_get (fetch_request args) = Inr response
        \<and> isBinary (ct_of (contentType_resp response))
      \<longrightarrow> body (fetchUrl http_get decoder args) = js ''Unsupported content-type'')"
  by (simp add: isBinary_spec fetchUrl_binary)

theorem binary_classification_witness:
  "binary_content_type ''image/png''
   \<and> body (fetchUrl (\<lambda>c. Inr png_response) (\<lambda>l b. Inl (Non_error [])) png_args)
       = js ''Unsupported content-type''"
  using binary_classification [of "''image/png''" "\<lambda>c. Inr png_response" png_args png_response
          "\<lambda>l b. Inl (Non_error [])"]
    png_binary
  by (simp add: png_ct)

text \<open>
  C10. For a response classified as binary, \<open>truncated\<close> is still the comparison of
  the raw byte length with the ceiling: a binary response longer than the ceiling
  gives \<open>truncated = true\<close> together with the body \<open>Unsupported content-type\<close>.
\<close>

theorem truncated_before_binary:
  assumes "http_get (fetch_request args) = Inr response"
      and "isBinary (ct_of (contentType_resp response))"
  shows "truncated (fetchUrl http_get decoder args)
           = js_gt (Finite (real (length (resp_data response)))) (maxBytes args)
         \<and> body (fetchUrl http_get decoder args) = js ''Unsupported content-type''
         \<and> (js_gt (Finite (real (length (resp_data response)))) (maxBytes args)
              \<longrightarrow> truncated (fetchUrl http_get decoder args))"
  using assms by (simp add: fetchUrl_binary)

theorem truncated_before_binary_witness:
  "truncated (fetchUrl (\<lambda>c. Inr png_response) (\<lambda>l b. Inr []) png_args)
   \<and> body (fetchUrl (\<lambda>c. Inr png_response) (\<lambda>l b. Inr []) png_args)
       = js ''Unsupported content-type''
   \<and> length (resp_data png_response) = 5 \<and> maxBytes png_args = Finite 4"
  using truncated_before_binary [of "\<lambda>c. Inr png_response" png_args png_response "\<lambda>l b. Inr []"]
    png_binary png_max
  by (simp add: png_response_def)

subsection \<open>Character sets\<close>

lemma if_Some_D: "(if P then Some a else None) = Some g \<Longrightarrow> P \<and> g = a"
  by (cases P) simp_all

lemma takeWhile_no_semicolon: "c \<notin> set (takeWhile (\<lambda>x. x \<noteq> c) xs)"
  by (induction xs) auto

lemma dropWhile_semicolon:
  "dropWhile (\<lambda>x. x \<noteq> c) xs = [] \<or> hd (dropWhile (\<lambda>x. x \<noteq> c) xs) = c"
  using hd_dropWhile [of "\<lambda>x. x \<noteq> c" xs] by blast

lemma charset_at_sound:
  assumes "charset_at s = Some g"
  shows "\<exists>k post. s = k @ g @ post \<and> map ascii_lower k = ''charset='' \<and> g \<noteq> []
        \<and> CHR '';'' \<notin> set g \<and> (post = [] \<or> hd post = CHR '';'')"
proof -
  define k where "k = take 8 s"
  define post where "post = dropWhile (\<lambda>x. x \<noteq> CHR '';'') (drop 8 s)"
  note a = if_Some_D [OF assms [unfolded charset_at_def]]
  have m: "map ascii_lower k = ''charset=''"
    unfolding k_def using a by (rule conjunct1 [THEN conjunct1])
  have n: "takeWhile (\<lambda>x. x \<noteq> CHR '';'') (drop 8 s) \<noteq> []"
    using a by (rule conjunct1 [THEN conjunct2])
  have g: "g = takeWhile (\<lambda>x. x \<noteq> CHR '';'') (drop 8 s)"
    using a by (rule conjunct2)
  have 1: "s = k @ g @ post"
    unfolding k_def g post_def by (simp only: takeWhile_dropWhile_id append_take_drop_id)
  have 2: "CHR '';'' \<notin> set g"
    unfolding g by (rule takeWhile_no_semicolon)
  have 3: "post = [] \<or> hd post = CHR '';''"
    unfolding post_def by (rule dropWhile_semicolon)
  have 4: "g \<noteq> []" using n unfolding g .
  show ?thesis
    by (rule exI [of _ k], rule exI [of _ post]) (intro conjI 1 m 4 2 3)
qed

lemma charset_match_sound:
  "charset_match s = Some g \<Longrightarrow>
     \<exists>pre k post. s = pre @ k @ g @ post \<and> map ascii_lower k = ''charset='' \<and> g \<noteq> []
        \<and> CHR '';'' \<notin> set g \<and> (post = [] \<or> hd post = CHR '';'')"
proof (induction s)
  case Nil
  then show ?case by simp
next
  case (Cons c cs)
  show ?case
  proof (cases "charset_at (c # cs)")
    case (Some g')
    with Cons.prems have "charset_at (c # cs) = Some g" by simp
    from charset_at_sound [OF this] obtain k post where
      q: "c # cs = k @ g @ post \<and> map ascii_lower k = ''charset='' \<and> g \<noteq> []
        \<and> CHR '';'' \<notin> set g \<and> (post = [] \<or> hd post = CHR '';'')"
      by (elim exE)
    then have "c # cs = [] @ k @ g @ post \<and> map ascii_lower k = ''charset='' \<and> g \<noteq> []
        \<and> CHR '';'' \<notin> set g \<and> (post = [] \<or> hd post = CHR '';'')"
      by (simp only: append_Nil simp_thms)
    then show ?thesis by (intro exI)
  next
    case None
    with Cons.prems have "charset_match cs = Some g" by simp
    from Cons.IH [OF this] obtain pre k post where
      p: "cs = pre @ k @ g @ post \<and> map ascii_lower k = ''charset='' \<and> g \<noteq> []
        \<and> CHR '';'' \<notin> set g \<and> (post = [] \<or> hd post = CHR '';'')"
      by (elim exE)
    then have "c # cs = (c # pre) @ k @ g @ post \<and> map ascii_lower k = ''charset='' \<and> g \<noteq> []
        \<and> CHR '';'' \<notin> set g \<and> (post = [] \<or> hd post = CHR '';'')"
      by (simp only: append_Cons simp_thms)
    then show ?thesis by (intro exI)
  qed
qed

lemma charset_key_length:
  assumes "map ascii_lower k = ''charset=''"
  shows "length k = 8"
proof -
  have "length (map ascii_lower k) = length ''charset=''" by (simp only: assms)
  then show ?thesis by simp
qed

lemma charset_at_complete:
  assumes "map ascii_lower k = ''charset=''" and "x \<noteq> CHR '';''"
  shows "charset_at (k @ x # rest) \<noteq> None"
proof -
  have l: "length k = 8" using assms(1) by (rule charset_key_length)
  have t: "take 8 (k @ x # rest) = k" and d: "drop 8 (k @ x # rest) = x # rest"
    using l by simp_all
  have w: "takeWhile (\<lambda>x. x \<noteq> CHR '';'') (x # rest) \<noteq> []" using assms(2) by simp
  show ?thesis
    unfolding charset_at_def t d using assms(1) w by (simp only: simp_thms if_True option.distinct not_False_eq_True)
qed

lemma charset_match_complete:
  assumes "map ascii_lower k = ''charset=''" and "x \<noteq> CHR '';''"
  shows "charset_match (pre @ k @ x # rest) \<noteq> None"
proof (induction pre)
  case Nil
  have "length k = 8" using assms(1) by (rule charset_key_length)
  then obtain c cs where k: "k = c # cs" by (cases k) simp_all
  have "charset_at (c # cs @ x # rest) \<noteq> None"
    using charset_at_complete [OF assms, of rest] unfolding k by simp
  then show ?case unfolding k by (auto split: option.splits)
next
  case (Cons p pre)
  then show ?case by (auto split: option.splits)
qed

lemma detect_encoding_match:
  "charset_match s = Some g \<Longrightarrow> detect_encoding (JStr s) = Some (toLowerCase (trim_latin1 g))"
  by (cases s) (simp_all add: detect_encoding_def)

lemma detect_encoding_no_match:
  "charset_match s = None \<Longrightarrow> detect_encoding (JStr s) = None"
  by (simp add: detect_encoding_def)

lemma detect_encoding_falsy: "\<not> str_truthy c \<Longrightarrow> detect_encoding c = None"
  by (cases c) (simp_all add: detect_encoding_def)

text \<open>
  C6. For a response that is not binary: the detected encoding is the group of the
  \<open>charset=\<close> match, trimmed and lower-cased, and null when there is no match; the
  decoder is asked for the detected encoding when that is a non-empty string and for
  \<open>utf-8\<close> otherwise; when it returns, the result carries its text and the detected
  encoding; when it throws, the body is the \<open>utf-8\<close> decoding and the result's encoding
  becomes \<open>utf-8\<close> only when no (non-empty) encoding had been detected.
\<close>

theorem charset_decoding:
  assumes "http_get (fetch_request args) = Inr response"
      and "\<not> isBinary (ct_of (contentType_resp response))"
  shows "(\<forall>s g. contentType_resp response = JStr s \<and> charset_match s = Some g
            \<longrightarrow> detect_encoding (contentType_resp response)
                  = Some (toLowerCase (trim_latin1 g)))
       \<and> (\<forall>s. contentType_resp response = JStr s \<and> charset_match s = None
            \<longrightarrow> detect_encoding (contentType_resp response) = None)
       \<and> (\<not> str_truthy (contentType_resp response)
            \<longrightarrow> detect_encoding (contentType_resp response) = None)
       \<and> (\<forall>c. detect_encoding (contentType_resp response) = Some c \<and> c \<noteq> []
            \<longrightarrow> charset_of (detect_encoding (contentType_resp response)) = c)
       \<and> (\<not> enc_truthy (detect_encoding (contentType_resp response))
            \<longrightarrow> charset_of (detect_encoding (contentType_resp response)) = ''utf-8'')
       \<and> (\<forall>b. decoder (charset_of (detect_encoding (contentType_resp response)))
                 (fst (limit_buffer (resp_data response) (maxBytes args))) = Inr b
            \<longrightarrow> body (fetchUrl http_get decoder args) = b
                \<and> encoding (fetchUrl http_get decoder args)
                    = detect_encoding (contentType_resp response))
       \<and> (\<forall>e b. decoder (charset_of (detect_encoding (contentType_resp response)))
                   (fst (limit_buffer (resp_data response) (maxBytes args))) = Inl e
                \<and> decoder ''utf-8''
                   (fst (limit_buffer (resp_data response) (maxBytes args))) = Inr b
            \<longrightarrow> body (fetchUrl http_get decoder args) = b
                \<and> encoding (fetchUrl http_get decoder args)
                    = (if enc_truthy (detect_encoding (contentType_resp response))
                       then detect_encoding (contentType_resp response)
                       else Some ''utf-8''))"
proof -
  let ?enc = "detect_encoding (contentType_resp response)"
  let ?buf = "fst (limit_buffer (resp_data response) (maxBytes args))"
  have 1: "\<forall>s g. contentType_resp response = JStr s \<and> charset_match s = Some g
            \<longrightarrow> ?enc = Some (toLowerCase (trim_latin1 g))"
    by (simp add: detect_encoding_match)
  have 2: "\<forall>s. contentType_resp response = JStr s \<and> charset_match s = None \<longrightarrow> ?enc = None"
    by (simp add: detect_encoding_no_match)
  have 3: "\<not> str_truthy (contentType_resp response) \<longrightarrow> ?enc = None"
    by (simp add: detect_encoding_falsy)
  have 4: "\<forall>c. ?enc = Some c \<and> c \<noteq> [] \<longrightarrow> charset_of ?enc = c"
    by (simp add: charset_of_def)
  have 5: "\<not> enc_truthy ?enc \<longrightarrow> charset_of ?enc = ''utf-8''"
    by (cases ?enc) (simp_all add: charset_of_def)
  have 6: "\<forall>b. decoder (charset_of ?enc) ?buf = Inr b
            \<longrightarrow> body (fetchUrl http_get decoder args) = b
                \<and> encoding (fetchUrl http_get decoder args) = ?enc"
  proof (intro allI impI)
    fix b assume "decoder (charset_of ?enc) ?buf = Inr b"
    then have "decode_body decoder False ?enc ?buf = Inr (b, ?enc)"
      by (simp add: decode_body_def)
    from fetchUrl_text [of http_get args response decoder, OF assms this]
    show "body (fetchUrl http_get decoder args) = b
                \<and> encoding (fetchUrl http_get decoder args) = ?enc" .
  qed
  have 7: "\<forall>e b. decoder (charset_of ?enc) ?buf = Inl e \<and> decoder ''utf-8'' ?buf = Inr b
            \<longrightarrow> body (fetchUrl http_get decoder args) = b
                \<and> encoding (fetchUrl http_get decoder args)
                    = (if enc_truthy ?enc then ?enc else Some ''utf-8'')"
  proof (intro allI impI)
    fix e b assume "decoder (charset_of ?enc) ?buf = Inl e \<and> decoder ''utf-8'' ?buf = Inr b"
    then have "decode_body decoder False ?enc ?buf
                 = Inr (b, if enc_truthy ?enc then ?enc else Some ''utf-8'')"
      by (simp add: decode_body_def)
    from fetchUrl_text [of http_get args response decoder, OF assms this]
    show "body (fetchUrl http_get decoder args) = b
                \<and> encoding (fetchUrl http_get decoder args)
                    = (if enc_truthy ?enc then ?enc else Some ''utf-8'')" .
  qed
  show ?thesis by (intro conjI 1 2 3 4 5 6 7)
qed

theorem charset_decoding_witness:
  "charset_match koi8_type = Some ''KOI8-R ''
   \<and> body (fetchUrl (\<lambda>c. Inr (text_response koi8_type)) latin1_decoder text_args) = js ''foob''
   \<and> encoding (fetchUrl (\<lambda>c. Inr (text_response koi8_type)) latin1_decoder text_args)
       = Some ''koi8-r''"
proof -
  have nb: "\<not> isBinary (ct_of (contentType_resp (text_response koi8_type)))"
    unfolding koi8_contentType by (rule koi8_text)
  note t = charset_decoding [of "\<lambda>c. Inr (text_response koi8_type)" text_args
      "text_response koi8_type" latin1_decoder, OF refl nb]
  have c: "charset_of (Some ''koi8-r'') = ''koi8-r''" by (simp add: charset_of_def)
  from t have "\<forall>e b. latin1_decoder (charset_of (Some ''koi8-r'')) [0x66, 0x6F, 0x6F, 0x62] = Inl e
                \<and> latin1_decoder ''utf-8'' [0x66, 0x6F, 0x6F, 0x62] = Inr b
            \<longrightarrow> body (fetchUrl (\<lambda>c. Inr (text_response koi8_type)) latin1_decoder text_args) = b
                \<and> encoding (fetchUrl (\<lambda>c. Inr (text_response koi8_type)) latin1_decoder text_args)
                    = (if enc_truthy (Some ''koi8-r'') then Some ''koi8-r'' else Some ''utf-8'')"
    unfolding koi8_contentType koi8_enc text_buf by (elim conjE)
  then show ?thesis
    unfolding c using latin1_koi8 latin1_foob koi8_match by simp
qed

subsection \<open>Redirects and status codes\<close>

lemma finalUrl_of_original:
  assumes "resp_responseUrl response = None"
      and "resp_config_url response = None \<or> resp_config_url response = Some u"
  shows "finalUrl_of u response = u"
  using assms by (auto simp add: finalUrl_of_def)

text \<open>
  C7. The request is issued with \<open>maxRedirects\<close> 5 when \<open>follow_redirects\<close> is true (or
  absent) and 0 when it is false, and with a \<open>validateStatus\<close> that accepts every
  status, so the client hands back every response instead of throwing on its status;
  the status of the response, whatever it is, is the status of the result. With
  \<open>follow_redirects = false\<close>, a response for which the client reports no address
  reached by redirection (and whose config carries the requested address) gives a
  result with that response's status and \<open>final_url\<close> equal to the requested \<open>url\<close>.
\<close>

theorem redirect_policy:
  "req_maxRedirects (fetch_request args) = Some (if follow_redirects_of args then 5 else 0)
   \<and> follow_redirects_of args = (arg_follow_redirects args \<noteq> Some False)
   \<and> (\<exists>v. req_validateStatus (fetch_request args) = Some v \<and> (\<forall>s. v s))
   \<and> (http_get (fetch_request args) = Inr response
        \<and> fetchUrl_try http_get decoder args = Inr res
      \<longrightarrow> fetchUrl http_get decoder args = res \<and> status res = resp_status response)
   \<and> (arg_follow_redirects args = Some False
        \<and> http_get (fetch_request args) = Inr response
        \<and> fetchUrl_try http_get decoder args = Inr res
        \<and> resp_responseUrl response = None
        \<and> (resp_config_url response = None \<or> resp_config_url response = Some (arg_url args))
      \<longrightarrow> req_maxRedirects (fetch_request args) = Some 0
          \<and> status res = resp_status response
          \<and> final_url res = arg_url args)"
proof -
  have 1: "req_maxRedirects (fetch_request args) = Some (if follow_redirects_of args then 5 else 0)"
    by (simp add: fetch_request_def)
  have 2: "follow_redirects_of args = (arg_follow_redirects args \<noteq> Some False)"
    by (cases "arg_follow_redirects args") (simp_all add: follow_redirects_of_def)
  have 3: "\<exists>v. req_validateStatus (fetch_request args) = Some v \<and> (\<forall>s. v s)"
    by (simp add: fetch_request_def)
  have 4: "http_get (fetch_request args) = Inr response
        \<and> fetchUrl_try http_get decoder args = Inr res
      \<longrightarrow> fetchUrl http_get decoder args = res \<and> status res = resp_status response"
    using fetchUrl_try_Inr [of http_get args response decoder res]
    by (simp add: fetchUrl_try_fetchUrl)
  have 5: "arg_follow_redirects args = Some False
        \<and> http_get (fetch_request args) = Inr response
        \<and> fetchUrl_try http_get decoder args = Inr res
        \<and> resp_responseUrl response = None
        \<and> (resp_config_url response = None \<or> resp_config_url response = Some (arg_url args))
      \<longrightarrow> req_maxRedirects (fetch_request args) = Some 0
          \<and> status res = resp_status response
          \<and> final_url res = arg_url args"
    using fetchUrl_try_Inr [of http_get args response decoder res]
      finalUrl_of_original [of response "arg_url args"] 1 2
    by auto
  show ?thesis by (intro conjI 1 2 3 4 5)
qed

theorem redirect_policy_witness:
  "req_maxRedirects (fetch_request redirect_args) = Some 0
   \<and> resp_status redirect_response = 302
   \<and> status (fetchUrl (\<lambda>c. Inr redirect_response) latin1_decoder redirect_args) = 302
   \<and> final_url (fetchUrl (\<lambda>c. Inr redirect_response) latin1_decoder redirect_args)
       = arg_url redirect_args"
proof -
  note t = redirect_policy [of redirect_args "\<lambda>c. Inr redirect_response" redirect_response
      latin1_decoder
      "\<lparr> url = js ''http://h/old'', final_url = js ''http://h/old'', status = 302,
             content_type = JStr ''text/html'', encoding = None,
             headers = [''content-type'' \<mapsto> Single ''text/html'',
                        ''location'' \<mapsto> Single ''http://h/new''],
             body = [], truncated = False \<rparr>"]
  have f: "arg_follow_redirects redirect_args = Some False" by (simp add: redirect_args_def)
  have r: "resp_responseUrl redirect_response = None"
    "resp_config_url redirect_response = Some (arg_url redirect_args)"
    "resp_status redirect_response = 302"
    by (simp_all add: redirect_response_def redirect_args_def)
  show ?thesis using t f r redirect_try by (simp add: fetchUrl_try_fetchUrl)
qed

section \<open>The search extractor: what a page becomes\<close>

lemma ge_ceiling: "x \<le> real k \<longleftrightarrow> nat \<lceil>x\<rceil> \<le> k"
  by (simp add: ceiling_le_iff nat_le_iff)

lemma each_result_acc:
  "each_result (Finite x) els acc
     = acc @ take (nat \<lceil>x\<rceil> - length acc) (List.map_filter result_of els)"
proof (induction els arbitrary: acc)
  case Nil
  show ?case by simp
next
  case (Cons el els)
  show ?case
  proof (cases "x \<le> real (length acc)")
    case True
    then have "nat \<lceil>x\<rceil> - length acc = 0"
      unfolding ge_ceiling by (rule diff_is_0_eq')
    with True show ?thesis by simp
  next
    case False
    then have lt: "\<not> nat \<lceil>x\<rceil> \<le> length acc"
      unfolding ge_ceiling .
    then obtain k where k: "nat \<lceil>x\<rceil> - length acc = Suc k"
      by (cases "nat \<lceil>x\<rceil> - length acc") auto
    then have k': "nat \<lceil>x\<rceil> - Suc (length acc) = k" by arith
    have step: "each_result (Finite x) (el # els) acc
       = each_result (Finite x) els (case result_of el of Some r \<Rightarrow> acc @ [r] | None \<Rightarrow> acc)"
      using False by simp
    show ?thesis
    proof (cases "result_of el")
      case None
      then show ?thesis
        unfolding step by (simp only: Cons.IH option.case map_filter_simps)
    next
      case (Some r)
      then show ?thesis
        unfolding step
        by (simp only: Cons.IH option.case map_filter_simps k k' length_append list.size
              take_Suc_Cons append_assoc append_Cons append_Nil add_Suc_right add_0_right)
    qed
  qed
qed

lemma each_result_take:
  "each_result (Finite x) els [] = take (nat \<lceil>x\<rceil>) (List.map_filter result_of els)"
  by (simp add: each_result_acc)

lemma result_of_nonempty:
  "result_of el = Some r \<Longrightarrow> title r \<noteq> [] \<and> result_url r \<noteq> []"
  by (auto simp add: result_of_def Let_def split: if_splits)

lemma map_filter_nonempty:
  "r \<in> set (List.map_filter result_of els) \<Longrightarrow> title r \<noteq> [] \<and> result_url r \<noteq> []"
  by (auto simp add: map_filter_def dest: result_of_nonempty)

lemma map_filter_append:
  "List.map_filter f (xs @ ys) = List.map_filter f xs @ List.map_filter f ys"
  by (simp add: map_filter_def)

lemma performSearch_ok:
  assumes "http_get (search_request query) = Inr response"
      and "load (resp_data response) = Inr els"
  shows "performSearch http_get load query limit = (each_result limit els [], [])"
  using assms by (simp add: performSearch_def performSearch_try_def)

lemma page_example_results:
  "List.map_filter result_of page_example =
     [\<lparr> title = js ''First'', result_url = js ''http://a/'', description = js ''one'' \<rparr>,
      \<lparr> title = js ''Fourth'', result_url = js ''http://d/'', description = [] \<rparr>,
      \<lparr> title = js ''Fifth'', result_url = js ''http://e/'', description = js ''five'' \<rparr>]"
  by (simp add: page_example_def result_of_def trim_def is_js_space_def js_def)

text \<open>
  C2. When the request or the parse of the page throws, \<open>performSearch\<close> returns (it
  does not throw) exactly one record, with title \<open>Search error\<close>, an empty url and as
  description the \<open>message\<close> of the \<open>Error\<close> thrown (\<open>Unknown error\<close> for a thrown value
  that is not an \<open>Error\<close>).
\<close>

theorem search_failure_sentinel:
  "(performSearch_try http_get load query limit = Inl e \<longrightarrow>
      fst (performSearch http_get load query limit)
        = [\<lparr> title = js ''Search error'', result_url = [],
             description = search_error_description e \<rparr>])
   \<and> (http_get (search_request query) = Inl e \<longrightarrow>
        performSearch_try http_get load query limit = Inl e)
   \<and> (http_get (search_request query) = Inr response \<and> load (resp_data response) = Inl e \<longrightarrow>
        performSearch_try http_get load query limit = Inl e)
   \<and> search_error_description (Error_instance m) = m
   \<and> search_error_description (Non_error j) = js ''Unknown error''"
  by (simp add: performSearch_def performSearch_try_def search_error_description_def)

theorem search_failure_sentinel_witness:
  "fst (performSearch (\<lambda>c. Inl (Error_instance (js ''timeout of 15000ms exceeded'')))
          (\<lambda>h::jstring. Inr page_example) (js ''q'') (Finite 5))
     = [\<lparr> title = js ''Search error'', result_url = [],
          description = js ''timeout of 15000ms exceeded'' \<rparr>]"
  using search_failure_sentinel
    [of "\<lambda>c. Inl (Error_instance (js ''timeout of 15000ms exceeded''))"
          "\<lambda>h::jstring. Inr page_example" "js ''q''" "Finite 5"
          "Error_instance (js ''timeout of 15000ms exceeded'')" _ "js ''timeout of 15000ms exceeded''"]
  by (simp add: search_error_description_def)

text \<open>
  C3. For an integer limit \<open>n\<close> in [1,10] and a page that was fetched and parsed, the
  result is the first \<open>n\<close> records of the containers that have a title and a url,
  in document order: at most \<open>n\<close> records, each with a non-empty title and url; a
  container without one of them adds nothing and uses up none of the limit; and once
  a prefix of the page has given \<open>n\<close> records, the rest of the page is not looked at.
\<close>

theorem search_results_bounded:
  assumes "1 \<le> n" and "n \<le> 10"
      and "http_get (search_request query) = Inr response"
      and "load (resp_data response) = Inr els"
  shows "fst (performSearch http_get load query (Finite (of_int n)))
           = take (nat n) (List.map_filter result_of els)
       \<and> length (fst (performSearch http_get load query (Finite (of_int n)))) \<le> nat n
       \<and> (\<forall>r \<in> set (fst (performSearch http_get load query (Finite (of_int n)))).
             title r \<noteq> [] \<and> result_url r \<noteq> [])
       \<and> (\<forall>pre rest. els = pre @ rest \<and> nat n \<le> length (List.map_filter result_of pre)
             \<longrightarrow> fst (performSearch http_get load query (Finite (of_int n)))
                   = each_result (Finite (of_int n)) pre [])"
proof -
  have r: "fst (performSearch http_get load query (Finite (of_int n)))
             = take (nat n) (List.map_filter result_of els)"
    using assms(3,4) by (simp add: performSearch_ok each_result_take)
  have s: "\<forall>r \<in> set (take (nat n) (List.map_filter result_of els)).
             title r \<noteq> [] \<and> result_url r \<noteq> []"
    using map_filter_nonempty in_set_takeD by fast
  have t: "\<forall>pre rest. els = pre @ rest \<and> nat n \<le> length (List.map_filter result_of pre)
             \<longrightarrow> take (nat n) (List.map_filter result_of els)
                   = each_result (Finite (of_int n)) pre []"
    by (simp add: each_result_take map_filter_append)
  have l: "length (take (nat n) (List.map_filter result_of els)) \<le> nat n" by simp
  show ?thesis unfolding r using s t l by blast
qed

theorem search_results_bounded_witness:
  "fst (performSearch (\<lambda>c. Inr html_response) (\<lambda>h. Inr page_example) (js ''q'') (Finite 2))
     = [\<lparr> title = js ''First'', result_url = js ''http://a/'', description = js ''one'' \<rparr>,
        \<lparr> title = js ''Fourth'', result_url = js ''http://d/'', description = [] \<rparr>]"
  using search_results_bounded [of 2 "\<lambda>c. Inr html_response" "js ''q''" html_response
          "\<lambda>h. Inr page_example" page_example]
  by (simp add: page_example_results)

section \<open>The limit of the search tool\<close>

lemma link_result:
  "result_of link_container
     = Some \<lparr> title = js ''T'', result_url = js ''http://x/'', description = [] \<rparr>"
  by (simp add: link_container_def result_of_def trim_def is_js_space_def js_def)

lemma map_filter_replicate:
  "f x = Some y \<Longrightarrow> List.map_filter f (replicate n x) = replicate n y"
  by (induction n) simp_all

text \<open>
  C8 does not hold as stated, the limit is not clamped into [1,10]: the dispatch
  passes \<open>-3\<close> on unchanged (the search then returns nothing), and \<open>performSearch\<close>
  called with the limit 11 on a page of eleven results returns all eleven.
\<close>

theorem limit_clamp_counterexample:
  "search_limit (Some (Finite (- 3))) = Finite (- 3)
   \<and> \<not> js_ge (search_limit (Some (Finite (- 3)))) (Finite 1)
   \<and> fst (callTool_search html_client eleven_links (js ''q'') (Some (Finite (- 3)))) = []
   \<and> length (fst (performSearch html_client eleven_links (js ''q'') (Finite 11))) = 11"
proof -
  have l: "search_limit (Some (Finite (- 3))) = Finite (- 3)"
    by (simp add: search_limit_def)
  have m: "List.map_filter result_of (replicate 11 link_container)
       = replicate 11 \<lparr> title = js ''T'', result_url = js ''http://x/'', description = [] \<rparr>"
    using link_result by (rule map_filter_replicate)
  have p: "performSearch html_client eleven_links (js ''q'') (Finite x)
           = (take (nat \<lceil>x\<rceil>) (replicate 11
                \<lparr> title = js ''T'', result_url = js ''http://x/'', description = [] \<rparr>), [])" for x
    by (simp add: performSearch_ok [of _ _ html_response _ "replicate 11 link_container"]
          each_result_take m html_client_def eleven_links_def)
  show ?thesis unfolding callTool_search_def l p by simp
qed

text \<open>
  C8, what holds of the limit. The dispatch replaces a missing, zero or NaN limit by 5 and caps the
  limit at 10, so the limit it passes on is at most 10 and is the supplied one
  whenever that lies in [1,10]. The search path does no clamping of its own: called
  with a limit \<open>x\<close> it returns the first \<open>ceiling x\<close> records of the page.
\<close>

theorem search_limit_effective:
  "js_ge (Finite 10) (search_limit l)
   \<and> (1 \<le> x \<and> x \<le> 10 \<longrightarrow> search_limit (Some (Finite x)) = Finite x)
   \<and> (10 < x \<longrightarrow> search_limit (Some (Finite x)) = Finite 10)
   \<and> search_limit (Some PosInfinity) = Finite 10
   \<and> search_limit None = Finite 5
   \<and> search_limit (Some (Finite 0)) = Finite 5
   \<and> search_limit (Some NaN) = Finite 5
   \<and> callTool_search http_get load query l = performSearch http_get load query (search_limit l)
   \<and> each_result (Finite x) els [] = take (nat \<lceil>x\<rceil>) (List.map_filter result_of els)"
proof -
  have 1: "js_ge (Finite 10) (search_limit l)"
  proof (cases l)
    case None
    then show ?thesis by (simp add: search_limit_def)
  next
    case (Some n)
    then show ?thesis by (cases n) (simp_all add: search_limit_def)
  qed
  have 2: "1 \<le> x \<and> x \<le> 10 \<longrightarrow> search_limit (Some (Finite x)) = Finite x"
    by (auto simp add: search_limit_def)
  have 3: "10 < x \<longrightarrow> search_limit (Some (Finite x)) = Finite 10"
    by (auto simp add: search_limit_def)
  have 4: "search_limit (Some PosInfinity) = Finite 10"
    "search_limit None = Finite 5"
    "search_limit (Some (Finite 0)) = Finite 5"
    "search_limit (Some NaN) = Finite 5"
    by (simp_all add: search_limit_def)
  have 5: "callTool_search http_get load query l
             = performSearch http_get load query (search_limit l)"
    by (simp add: callTool_search_def)
  show ?thesis by (intro conjI 1 2 3 4 5 each_result_take)
qed

theorem search_limit_effective_witness:
  "search_limit (Some (Finite 7)) = Finite 7
   \<and> search_limit (Some (Finite 25)) = Finite 10
   \<and> each_result (Finite 2) page_example []
       = [\<lparr> title = js ''First'', result_url = js ''http://a/'', description = js ''one'' \<rparr>,
          \<lparr> title = js ''Fourth'', result_url = js ''http://d/'', description = [] \<rparr>]"
  using search_limit_effective [of "Some (Finite 7)" 7 "\<lambda>c. Inr html_response"
            "\<lambda>h. Inr page_example" "js ''q''" page_example]
        search_limit_effective [of "Some (Finite 25)" 25 "\<lambda>c. Inr html_response"
            "\<lambda>h. Inr page_example" "js ''q''" page_example]
        search_limit_effective [of "Some (Finite 2)" 2 "\<lambda>c. Inr html_response"
            "\<lambda>h. Inr page_example" "js ''q''" page_example]
  by (simp add: page_example_results)

section \<open>The HTTP client factory: which client is built\<close>

lemma proxyEnv_first:
  "(case proxyEnv env of None \<Rightarrow> None | Some p \<Rightarrow> (if p = [] then None else Some p))
     = first_non_empty (proxy_vars env)"
  by (simp add: proxyEnv_def or_env_def proxy_vars_def split: option.splits)

text \<open>
  C9. The proxy address is the first non-empty value among \<open>HTTPS_PROXY\<close>,
  \<open>https_proxy\<close>, \<open>HTTP_PROXY\<close> and \<open>http_proxy\<close>. When there is none the factory
  returns the default client and logs nothing; when there is one and the agent is
  built, it returns a client with that agent; when the construction of the agent
  throws, it logs the warning and returns the default client.
\<close>

theorem client_factory:
  "(first_non_empty (proxy_vars env) = None
      \<longrightarrow> createHttpClient mk_agent env = (Axios_default, []))
   \<and> (\<forall>p. first_non_empty (proxy_vars env) = Some p \<longrightarrow>
         p \<noteq> []
         \<and> (\<forall>agent. mk_agent p = Inr agent
               \<longrightarrow> createHttpClient mk_agent env = (Axios_create agent, []))
         \<and> (\<forall>error. mk_agent p = Inl error
               \<longrightarrow> createHttpClient mk_agent env
                     = (Axios_default,
                        [Console_error ''Invalid proxy configuration in HTTPS_PROXY/HTTP_PROXY:''
                           error])))"
  using proxyEnv_first [of env]
  by (auto simp add: createHttpClient_def split: option.splits if_splits)

theorem client_factory_witness:
  "first_non_empty (proxy_vars env_example) = Some (js ''not a url'')
   \<and> createHttpClient agent_example env_example
       = (Axios_default,
          [Console_error ''Invalid proxy configuration in HTTPS_PROXY/HTTP_PROXY:''
             (Error_instance (js ''Invalid URL''))])
   \<and> createHttpClient agent_example Map.empty = (Axios_default, [])
   \<and> createHttpClient agent_example [''https_proxy'' \<mapsto> js ''http://proxy:3128'']
       = (Axios_create (js ''http://proxy:3128''), [])"
proof -
  have a: "first_non_empty (proxy_vars env_example) = Some (js ''not a url'')"
    by (simp add: proxy_vars_def env_example_def js_def)
  have b: "first_non_empty (proxy_vars Map.empty) = None"
    by (simp add: proxy_vars_def)
  have c: "first_non_empty (proxy_vars [''https_proxy'' \<mapsto> js ''http://proxy:3128''])
             = Some (js ''http://proxy:3128'')"
    by (simp add: proxy_vars_def js_def)
  have d: "agent_example (js ''not a url'') = Inl (Error_instance (js ''Invalid URL''))"
    "agent_example (js ''http://proxy:3128'') = Inr (js ''http://proxy:3128'')"
    by (simp_all add: agent_example_def js_def)
  show ?thesis
    using client_factory [of env_example agent_example]
          client_factory [of Map.empty agent_example]
          client_factory [of "[''https_proxy'' \<mapsto> js ''http://proxy:3128'']" agent_example]
          a b c d
    by simp
qed

end
